theory Spec2Isabelle
  imports Main
begin

section \<open>The data of the Book Admin screen\<close>

text \<open>
  The development embeds \<^verbatim>\<open>frontend/src/Pages/BooksAdmin.tsx\<close>: one React component
  that owns a book list, a form, three flags and a set of book identifiers, and talks to a
  REST backend through \<^verbatim>\<open>fetch\<close>. The component's \<^verbatim>\<open>useState\<close> cells become the
  fields of one record, every handler becomes a function from the state to the new state,
  and the answer of each \<^verbatim>\<open>fetch\<close> is an argument of the handler that awaits it.
\<close>

text \<open>\<^verbatim>\<open>const API_URL = 'http://localhost:3001/api'\<close> (line 24).\<close>

definition API_URL :: string where
  "API_URL = ''http://localhost:3001/api''"

text \<open>
  \<^verbatim>\<open>interface Book\<close> (lines 26-32). The field \<^verbatim>\<open>_id\<close> is \<open>book_id\<close> here; the other
  fields carry the prefix \<open>book_\<close> to keep them apart from the form's fields of the same
  names.
\<close>

record Book =
  book_id :: string
  book_title :: string
  book_author :: string
  book_description :: string
  book_cover :: string

text \<open>A browser \<^verbatim>\<open>File\<close>: a name and its bytes. A \<^verbatim>\<open>File\<close> object is always truthy.\<close>

datatype File = File string "nat list"

text \<open>\<^verbatim>\<open>interface BookFormData\<close> (lines 34-39); the optional \<^verbatim>\<open>cover?: File\<close> is an option.\<close>

record BookFormData =
  title :: string
  author :: string
  description :: string
  cover :: "File option"

text \<open>The seven \<^verbatim>\<open>useState\<close> cells of the component (lines 42-54).\<close>

record ScreenState =
  books :: "Book list"
  isModalOpen :: bool
  isLoading :: bool
  error :: "string option"
  editingBook :: "Book option"
  formData :: BookFormData
  failedImages :: "string set"

definition emptyForm :: BookFormData where
  "emptyForm = \<lparr>title = [], author = [], description = [], cover = None\<rparr>"

text \<open>The initial values given to \<^verbatim>\<open>useState\<close>.\<close>

definition initialState :: ScreenState where
  "initialState =
     \<lparr>books = [], isModalOpen = False, isLoading = False, error = None,
      editingBook = None, formData = emptyForm, failedImages = {}\<rparr>"

section \<open>The network\<close>

text \<open>
  A request is what the component hands to \<^verbatim>\<open>fetch\<close>: the URL, the method (\<^verbatim>\<open>GET\<close> when
  none is given) and the body, a \<^verbatim>\<open>FormData\<close> kept as the list of its entries in the
  order they were appended.
\<close>

datatype http_verb = GET | POST | PUT | DELETE

datatype form_value = Text string | Blob File

record request =
  url :: string
  http_method :: http_verb
  body :: "(string \<times> form_value) list option"

text \<open>
  What awaiting a \<^verbatim>\<open>fetch\<close> gives: the promise rejects (the network failed), or it
  resolves to a response with its \<^verbatim>\<open>ok\<close> flag and the outcome of \<^verbatim>\<open>response.json()\<close>,
  \<open>None\<close> when that call rejects. The component reads the JSON of the list endpoint only
  and trusts it to be a \<^verbatim>\<open>Book[]\<close>, as its types say.
\<close>

datatype fetch_result = Rejected | Resolved bool "Book list option"

fun response_ok :: "fetch_result \<Rightarrow> bool" where
  "response_ok Rejected = False"
| "response_ok (Resolved ok j) = ok"

definition booksRequest :: request where
  "booksRequest = \<lparr>url = API_URL @ ''/books'', http_method = GET, body = None\<rparr>"

section \<open>The handlers\<close>

text \<open>
  \<^verbatim>\<open>fetchBooks\<close> (lines 56-65), given the outcome of its \<^verbatim>\<open>fetch\<close>. The three ways
  into the \<^verbatim>\<open>catch\<close> block are the rejected promise, \<^verbatim>\<open>!response.ok\<close> and a rejected
  \<^verbatim>\<open>response.json()\<close>. The function never throws.
\<close>

fun fetchBooks :: "fetch_result \<Rightarrow> ScreenState \<Rightarrow> ScreenState" where
  "fetchBooks Rejected s = s\<lparr>error := Some ''Failed to load books''\<rparr>"
| "fetchBooks (Resolved ok j) s =
     (if \<not> ok then s\<lparr>error := Some ''Failed to load books''\<rparr>
      else case j of
             None \<Rightarrow> s\<lparr>error := Some ''Failed to load books''\<rparr>
           | Some data \<Rightarrow> s\<lparr>books := data\<rparr>)"

text \<open>
  \<^verbatim>\<open>handleInputChange\<close> (lines 71-75). The event's \<^verbatim>\<open>target.name\<close> is the
  \<^verbatim>\<open>name\<close> attribute of one of the three text inputs of the form.
\<close>

datatype field = Title | Author | Description

fun handleInputChange :: "field \<Rightarrow> string \<Rightarrow> ScreenState \<Rightarrow> ScreenState" where
  "handleInputChange Title v s = s\<lparr>formData := (formData s)\<lparr>title := v\<rparr>\<rparr>"
| "handleInputChange Author v s = s\<lparr>formData := (formData s)\<lparr>author := v\<rparr>\<rparr>"
| "handleInputChange Description v s = s\<lparr>formData := (formData s)\<lparr>description := v\<rparr>\<rparr>"

text \<open>
  \<^verbatim>\<open>handleFileChange\<close> (lines 77-81): \<^verbatim>\<open>e.target.files?.[0]\<close> is undefined when
  \<^verbatim>\<open>files\<close> is null or empty, and then nothing is set.
\<close>

fun handleFileChange :: "File list option \<Rightarrow> ScreenState \<Rightarrow> ScreenState" where
  "handleFileChange None s = s"
| "handleFileChange (Some []) s = s"
| "handleFileChange (Some (f # fs)) s = s\<lparr>formData := (formData s)\<lparr>cover := Some f\<rparr>\<rparr>"

text \<open>\<^verbatim>\<open>resetForm\<close> (lines 83-87).\<close>

definition resetForm :: "ScreenState \<Rightarrow> ScreenState" where
  "resetForm s = s\<lparr>formData := emptyForm, editingBook := None, error := None\<rparr>"

text \<open>\<^verbatim>\<open>handleEdit\<close> (lines 89-97).\<close>

definition handleEdit :: "Book \<Rightarrow> ScreenState \<Rightarrow> ScreenState" where
  "handleEdit book s =
     s\<lparr>editingBook := Some book,
       formData := \<lparr>title = book_title book, author = book_author book,
                    description = book_description book, cover = None\<rparr>,
       isModalOpen := True\<rparr>"

text \<open>
  The \<^verbatim>\<open>FormData\<close> that \<^verbatim>\<open>handleSubmit\<close> builds (lines 104-110) and the request it
  sends (lines 113-121). \<^verbatim>\<open>editingBook\<close> is an object or null, so it is truthy exactly
  when it is set.
\<close>

definition formDataToSend :: "BookFormData \<Rightarrow> (string \<times> form_value) list" where
  "formDataToSend f =
     [(''title'', Text (title f)), (''author'', Text (author f)),
      (''description'', Text (description f))]
     @ (case cover f of None \<Rightarrow> [] | Some c \<Rightarrow> [(''cover'', Blob c)])"

definition submitRequest :: "ScreenState \<Rightarrow> request" where
  "submitRequest s =
     \<lparr>url = (case editingBook s of
               Some b \<Rightarrow> API_URL @ ''/books/'' @ book_id b
             | None \<Rightarrow> API_URL @ ''/books''),
      http_method = (case editingBook s of Some b \<Rightarrow> PUT | None \<Rightarrow> POST),
      body = Some (formDataToSend (formData s))\<rparr>"

text \<open>The two assignments of \<^verbatim>\<open>handleSubmit\<close> before its first \<^verbatim>\<open>await\<close> (lines 101-102).\<close>

definition submitStart :: "ScreenState \<Rightarrow> ScreenState" where
  "submitStart s = s\<lparr>isLoading := True, error := None\<rparr>"

text \<open>
  What \<^verbatim>\<open>handleSubmit\<close> does once \<^verbatim>\<open>fetchBooks\<close> has returned (lines 126-127 and the
  \<^verbatim>\<open>finally\<close> block).
\<close>

definition submitDone :: "ScreenState \<Rightarrow> ScreenState" where
  "submitDone s = (resetForm (s\<lparr>isModalOpen := False\<rparr>))\<lparr>isLoading := False\<rparr>"

text \<open>The \<^verbatim>\<open>catch\<close> and \<^verbatim>\<open>finally\<close> blocks of \<^verbatim>\<open>handleSubmit\<close> (lines 128-132).\<close>

definition submitFailed :: "ScreenState \<Rightarrow> ScreenState" where
  "submitFailed s = s\<lparr>error := Some ''Failed to save book'', isLoading := False\<rparr>"

text \<open>
  \<^verbatim>\<open>handleSubmit\<close> (lines 99-133) run from its start to its end, given the outcome of
  the save request and the outcome of the list request that follows a successful save. It
  returns the requests it sent, in order, and the new state.
\<close>

definition handleSubmit ::
  "fetch_result \<Rightarrow> fetch_result \<Rightarrow> ScreenState \<Rightarrow> request list \<times> ScreenState" where
  "handleSubmit r_save r_books s =
     (if response_ok r_save
      then ([submitRequest s, booksRequest], submitDone (fetchBooks r_books (submitStart s)))
      else ([submitRequest s], submitFailed (submitStart s)))"

text \<open>
  \<^verbatim>\<open>handleDelete\<close> (lines 135-149), given the answer to \<^verbatim>\<open>window.confirm\<close> and the
  outcomes of the two requests.
\<close>

definition deleteRequest :: "string \<Rightarrow> request" where
  "deleteRequest bookId =
     \<lparr>url = API_URL @ ''/books/'' @ bookId, http_method = DELETE, body = None\<rparr>"

definition deleteFailed :: "ScreenState \<Rightarrow> ScreenState" where
  "deleteFailed s = s\<lparr>error := Some ''Failed to delete book''\<rparr>"

definition handleDelete ::
  "string \<Rightarrow> bool \<Rightarrow> fetch_result \<Rightarrow> fetch_result \<Rightarrow> ScreenState
     \<Rightarrow> request list \<times> ScreenState" where
  "handleDelete bookId confirmed r_delete r_books s =
     (if \<not> confirmed then ([], s)
      else if response_ok r_delete
      then ([deleteRequest bookId, booksRequest], fetchBooks r_books s)
      else ([deleteRequest bookId], deleteFailed s))"

text \<open>\<^verbatim>\<open>handleImageError\<close> (lines 152-154).\<close>

definition handleImageError :: "string \<Rightarrow> ScreenState \<Rightarrow> ScreenState" where
  "handleImageError bookId s = s\<lparr>failedImages := insert bookId (failedImages s)\<rparr>"

text \<open>
  The inline handlers of the rendered tree: the click on "Add New Book" (line 168), which
  the specification calls \<open>startCreate\<close>; the dialog's \<^verbatim>\<open>onOpenChange\<close> (line 224), which
  is the setter \<^verbatim>\<open>setIsModalOpen\<close> itself; the click on "Cancel" (lines 290-293).
\<close>

definition startCreate :: "ScreenState \<Rightarrow> ScreenState" where
  "startCreate s = s\<lparr>isModalOpen := True\<rparr>"

definition onOpenChange :: "bool \<Rightarrow> ScreenState \<Rightarrow> ScreenState" where
  "onOpenChange opn s = s\<lparr>isModalOpen := opn\<rparr>"

definition cancelClick :: "ScreenState \<Rightarrow> ScreenState" where
  "cancelClick s = resetForm (s\<lparr>isModalOpen := False\<rparr>)"

section \<open>What is rendered\<close>

text \<open>
  The cover of a card (lines 185-194): the fallback view with the title, or an image with
  its \<^verbatim>\<open>src\<close> and \<^verbatim>\<open>alt\<close>.
\<close>

datatype cover_view = FallbackCover string | Img string string

definition renderCover :: "ScreenState \<Rightarrow> Book \<Rightarrow> cover_view" where
  "renderCover s book =
     (if book_id book \<in> failedImages s then FallbackCover (book_title book)
      else Img (API_URL @ book_cover book) (book_title book))"

text \<open>A card (lines 182-220): its key, cover, title, the line under the title, the text.\<close>

record Card =
  card_key :: string
  card_cover :: cover_view
  card_title :: string
  card_byline :: string
  card_text :: string

definition renderCard :: "ScreenState \<Rightarrow> Book \<Rightarrow> Card" where
  "renderCard s book =
     \<lparr>card_key = book_id book, card_cover = renderCover s book,
      card_title = book_title book, card_byline = ''by '' @ book_author book,
      card_text = book_description book\<rparr>"

definition renderCards :: "ScreenState \<Rightarrow> Card list" where
  "renderCards s = map (renderCard s) (books s)"

text \<open>The submit button is rendered with \<^verbatim>\<open>disabled={isLoading}\<close> (line 297).\<close>

definition submitDisabled :: "ScreenState \<Rightarrow> bool" where
  "submitDisabled s = isLoading s"

definition dialogTitle :: "ScreenState \<Rightarrow> string" where
  "dialogTitle s = (case editingBook s of Some b \<Rightarrow> ''Edit Book'' | None \<Rightarrow> ''Add New Book'')"

section \<open>The screen as a transition system\<close>

text \<open>
  The handlers are asynchronous: \<^verbatim>\<open>handleSubmit\<close> and \<^verbatim>\<open>handleDelete\<close> suspend at
  their \<^verbatim>\<open>await\<close>s, and the user can act on the screen while a request is on its way.
  A configuration is the state, the suspended handlers in the order they started, and the
  requests sent so far. A suspended handler is named by the \<^verbatim>\<open>fetch\<close> it awaits:
  the save request of \<^verbatim>\<open>handleSubmit\<close>, the delete request of \<^verbatim>\<open>handleDelete\<close>, or
  the list request of \<^verbatim>\<open>fetchBooks\<close>, called at mount (lines 67-69), from
  \<^verbatim>\<open>handleSubmit\<close> (line 125) or from \<^verbatim>\<open>handleDelete\<close> (line 145).
\<close>

datatype caller = FromMount | FromSubmit | FromDelete

datatype task = AwaitSave | AwaitDelete | AwaitBooks caller

record config =
  screen :: ScreenState
  pending :: "task list"
  sent :: "request list"

text \<open>
  What the user and the browser can do to the screen, and the network settling the
  request of the \<open>i\<close>-th suspended handler.
\<close>

datatype event =
    ClickAddNew
  | ClickEdit Book
  | ClickDelete string bool
  | InputChange field string
  | FileChange "File list option"
  | ClickCancel
  | OpenChange bool
  | SubmitForm
  | ImageError string
  | Settle nat fetch_result

text \<open>The component after its first render: the effect of lines 67-69 has called \<^verbatim>\<open>fetchBooks\<close>.\<close>

definition mount :: config where
  "mount = \<lparr>screen = initialState, pending = [AwaitBooks FromMount], sent = [booksRequest]\<rparr>"

text \<open>
  A suspended handler resumes with the outcome of its request and runs to its next
  \<^verbatim>\<open>await\<close> or to its end: the requests it sends, the handler it becomes (none when it
  has ended) and the new state.
\<close>

fun settle :: "task \<Rightarrow> fetch_result \<Rightarrow> ScreenState \<Rightarrow> request list \<times> task list \<times> ScreenState" where
  "settle AwaitSave r s =
     (if response_ok r then ([booksRequest], [AwaitBooks FromSubmit], s)
      else ([], [], submitFailed s))"
| "settle AwaitDelete r s =
     (if response_ok r then ([booksRequest], [AwaitBooks FromDelete], s)
      else ([], [], deleteFailed s))"
| "settle (AwaitBooks FromSubmit) r s = ([], [], submitDone (fetchBooks r s))"
| "settle (AwaitBooks FromMount) r s = ([], [], fetchBooks r s)"
| "settle (AwaitBooks FromDelete) r s = ([], [], fetchBooks r s)"

definition resume :: "nat \<Rightarrow> fetch_result \<Rightarrow> config \<Rightarrow> config" where
  "resume i r c =
     (if i < length (pending c)
      then (case settle (pending c ! i) r (screen c) of
              (reqs, ts, s') \<Rightarrow>
                \<lparr>screen = s',
                 pending = take i (pending c) @ ts @ drop (Suc i) (pending c),
                 sent = sent c @ reqs\<rparr>)
      else c)"

text \<open>
  One event. The form is submitted through its submit button, which is disabled while
  \<^verbatim>\<open>isLoading\<close> holds (line 297); \<^verbatim>\<open>handleSubmit\<close> itself does not read the flag. Every
  other control is taken to be usable at any time and on any book or identifier, whether
  or not the dialog is open or the book is in the list, so the system below has at least
  the runs of the real screen.
\<close>

fun step :: "event \<Rightarrow> config \<Rightarrow> config" where
  "step ClickAddNew c = c\<lparr>screen := startCreate (screen c)\<rparr>"
| "step (ClickEdit book) c = c\<lparr>screen := handleEdit book (screen c)\<rparr>"
| "step (ClickDelete bookId confirmed) c =
     (if confirmed
      then c\<lparr>pending := pending c @ [AwaitDelete], sent := sent c @ [deleteRequest bookId]\<rparr>
      else c)"
| "step (InputChange f v) c = c\<lparr>screen := handleInputChange f v (screen c)\<rparr>"
| "step (FileChange files) c = c\<lparr>screen := handleFileChange files (screen c)\<rparr>"
| "step ClickCancel c = c\<lparr>screen := cancelClick (screen c)\<rparr>"
| "step (OpenChange opn) c = c\<lparr>screen := onOpenChange opn (screen c)\<rparr>"
| "step SubmitForm c =
     (if submitDisabled (screen c) then c
      else c\<lparr>screen := submitStart (screen c),
             pending := pending c @ [AwaitSave],
             sent := sent c @ [submitRequest (screen c)]\<rparr>)"
| "step (ImageError bookId) c = c\<lparr>screen := handleImageError bookId (screen c)\<rparr>"
| "step (Settle i r) c = resume i r c"

fun run :: "event list \<Rightarrow> config \<Rightarrow> config" where
  "run [] c = c"
| "run (e # es) c = run es (step e c)"

text \<open>The handlers of \<^verbatim>\<open>handleSubmit\<close> that are on their way: both of its \<^verbatim>\<open>await\<close>s.\<close>

fun submitting :: "task \<Rightarrow> bool" where
  "submitting AwaitSave = True"
| "submitting (AwaitBooks FromSubmit) = True"
| "submitting t = False"

definition submitsInFlight :: "config \<Rightarrow> nat" where
  "submitsInFlight c = length (filter submitting (pending c))"

section \<open>Auxiliary definitions\<close>

text \<open>
  The list that \<^verbatim>\<open>fetchBooks\<close> stores: the JSON of a response that resolved, is
  \<^verbatim>\<open>ok\<close> and parsed. In every other case \<^verbatim>\<open>fetchBooks\<close> ends in its \<^verbatim>\<open>catch\<close> block.
\<close>

fun loaded :: "fetch_result \<Rightarrow> Book list option" where
  "loaded Rejected = None"
| "loaded (Resolved ok j) = (if ok then j else None)"

text \<open>The three messages that the source passes to \<^verbatim>\<open>setError\<close>, and \<^verbatim>\<open>null\<close>.\<close>

definition staticErrors :: "string option set" where
  "staticErrors =
     {None, Some ''Failed to load books'', Some ''Failed to save book'',
      Some ''Failed to delete book''}"

text \<open>
  The origin of \<open>API_URL\<close>, that is its scheme, host and port; \<open>API_URL\<close> is this
  origin followed by the base path \<^verbatim>\<open>/api\<close>.
\<close>

definition base_origin :: string where
  "base_origin = ''http://localhost:3001''"

text \<open>The book of the specification's concrete scenario.\<close>

definition dune :: Book where
  "dune = \<lparr>book_id = ''1'', book_title = ''Dune'', book_author = ''Herbert'',
           book_description = ''...'', book_cover = ''/covers/1.jpg''\<rparr>"

text \<open>
  The state after "Edit" on that book and a dismissal of the dialog by its own close
  mechanism (escape, or a click on the overlay).
\<close>

definition staleEdit :: ScreenState where
  "staleEdit = onOpenChange False (handleEdit dune initialState)"

text \<open>The invariant that ties \<^verbatim>\<open>isLoading\<close> to the submissions on their way.\<close>

definition flagMatches :: "config \<Rightarrow> bool" where
  "flagMatches c = (submitsInFlight c = (if isLoading (screen c) then 1 else 0))"

section \<open>Basic facts\<close>

lemma API_URL_origin: "API_URL = base_origin @ ''/api''"
  by (simp add: API_URL_def base_origin_def)

lemma fetchBooks_loaded:
  "fetchBooks r s =
     (case loaded r of Some data \<Rightarrow> s\<lparr>books := data\<rparr>
      | None \<Rightarrow> s\<lparr>error := Some ''Failed to load books''\<rparr>)"
  by (cases r) (simp_all split: option.splits)

lemma isLoading_fetchBooks: "isLoading (fetchBooks r s) = isLoading s"
  by (simp add: fetchBooks_loaded split: option.splits)

lemma failedImages_fetchBooks: "failedImages (fetchBooks r s) = failedImages s"
  by (simp add: fetchBooks_loaded split: option.splits)

lemma editingBook_fetchBooks: "editingBook (fetchBooks r s) = editingBook s"
  by (simp add: fetchBooks_loaded split: option.splits)

lemma error_fetchBooks: "error s \<in> staticErrors \<Longrightarrow> error (fetchBooks r s) \<in> staticErrors"
  by (simp add: fetchBooks_loaded staticErrors_def split: option.splits)

lemma screen_resume:
  "screen (resume i r c) =
     (if i < length (pending c) then snd (snd (settle (pending c ! i) r (screen c)))
      else screen c)"
  by (simp add: resume_def split: prod.splits)

subsection \<open>The two levels agree\<close>

text \<open>
  A handler that is not interrupted, in the transition system, does what the function of
  the handler computes: the event that starts it followed by the outcomes of its requests.
  After a failed first request the handler has ended, and the second outcome settles
  nothing.
\<close>

lemma handleSubmit_as_run:
  assumes "pending c = []" and "\<not> isLoading (screen c)"
  shows "run [SubmitForm, Settle 0 r_save, Settle 0 r_books] c
           = \<lparr>screen = snd (handleSubmit r_save r_books (screen c)), pending = [],
              sent = sent c @ fst (handleSubmit r_save r_books (screen c))\<rparr>"
  using assms
  by (cases "response_ok r_save")
    (simp_all add: submitDisabled_def resume_def handleSubmit_def)

lemma handleDelete_as_run:
  assumes "pending c = []"
  shows "run [ClickDelete bookId confirmed, Settle 0 r_delete, Settle 0 r_books] c
           = \<lparr>screen = snd (handleDelete bookId confirmed r_delete r_books (screen c)),
              pending = [],
              sent = sent c @ fst (handleDelete bookId confirmed r_delete r_books (screen c))\<rparr>"
  using assms
  by (cases confirmed; cases "response_ok r_delete")
    (simp_all add: resume_def handleDelete_def)

text \<open>
  \<^verbatim>\<open>handleSubmit\<close> does not read \<^verbatim>\<open>isLoading\<close>: called in any state, it sends its
  request. The guard against a second submission is the disabled button alone.
\<close>

lemma handleSubmit_always_sends:
  "hd (fst (handleSubmit r_save r_books s)) = submitRequest s"
  by (simp add: handleSubmit_def)

section \<open>Opening the dialog for a new book\<close>

text \<open>
  Claim C1, as the specification states it, fails: \<open>startCreate\<close> does not clear the
  error message. After a failed list load at mount the message "Failed to load books" is
  shown, and it is still shown after "Add New Book".
\<close>

theorem startCreate_keeps_error:
  "error (screen (run [Settle 0 Rejected] mount)) = Some ''Failed to load books''
   \<and> error (startCreate (screen (run [Settle 0 Rejected] mount))) = Some ''Failed to load books''
   \<and> error (screen (run [Settle 0 Rejected, ClickAddNew] mount)) = Some ''Failed to load books''"
  by (simp add: startCreate_def mount_def screen_resume)

text \<open>
  Claim C1, amended: \<open>startCreate\<close> opens the dialog and does not clear the error
  message: after it the dialog is open, and the error message, the book list, the
  in-flight flag and the set of failed images are as before. When the edit target is none
  and the form is the empty template before it, they are so after it; that is the case in
  the initial state, after "Cancel" and after a successful submit, where the source resets
  the form.
\<close>

theorem startCreate_opens_modal:
  "isModalOpen (startCreate s)
   \<and> error (startCreate s) = error s
   \<and> books (startCreate s) = books s
   \<and> isLoading (startCreate s) = isLoading s
   \<and> failedImages (startCreate s) = failedImages s
   \<and> (editingBook s = None \<longrightarrow> editingBook (startCreate s) = None)
   \<and> (formData s = emptyForm \<longrightarrow> formData (startCreate s) = emptyForm)
   \<and> startCreate initialState = initialState\<lparr>isModalOpen := True\<rparr>
   \<and> startCreate (cancelClick s) =
       s\<lparr>isModalOpen := True, formData := emptyForm, editingBook := None, error := None\<rparr>
   \<and> (response_ok r_save \<longrightarrow>
        editingBook (startCreate (snd (handleSubmit r_save r_books s))) = None
        \<and> formData (startCreate (snd (handleSubmit r_save r_books s))) = emptyForm
        \<and> error (startCreate (snd (handleSubmit r_save r_books s))) = None)"
  by (simp add: startCreate_def cancelClick_def resetForm_def handleSubmit_def submitDone_def)

theorem startCreate_opens_modal_witness:
  "editingBook initialState = None \<and> formData initialState = emptyForm
   \<and> response_ok (Resolved True None)
   \<and> isModalOpen (startCreate initialState)
   \<and> editingBook (startCreate initialState) = None
   \<and> formData (startCreate initialState) = emptyForm
   \<and> error (startCreate (fetchBooks Rejected initialState)) = Some ''Failed to load books''
   \<and> formData (startCreate (snd (handleSubmit (Resolved True None) Rejected staleEdit)))
       = emptyForm"
  using startCreate_opens_modal [of initialState "Resolved True None" Rejected]
    startCreate_opens_modal [of "fetchBooks Rejected initialState" "Resolved True None" Rejected]
    startCreate_opens_modal [of staleEdit "Resolved True None" Rejected]
  by (simp add: initialState_def)

text \<open>
  A defect of the source that the amended claim leaves out. The form is reset where the
  dialog is closed by "Cancel" or by a successful submit, but not where it is closed by
  its own close mechanism. After "Edit" on a book and such a dismissal, "Add New Book"
  opens the dialog under the title "Edit Book" with the fields of that book, and
  submitting it sends a \<^verbatim>\<open>PUT\<close> to that book instead of a \<^verbatim>\<open>POST\<close>.
\<close>

lemma add_new_after_dismissed_edit:
  "screen (run [ClickEdit dune, OpenChange False] mount) = staleEdit
   \<and> dialogTitle (startCreate staleEdit) = ''Edit Book''
   \<and> title (formData (startCreate staleEdit)) = ''Dune''
   \<and> fst (handleSubmit r_save r_books (startCreate staleEdit))
       = \<lparr>url = ''http://localhost:3001/api/books/1'', http_method = PUT,
          body = Some [(''title'', Text ''Dune''), (''author'', Text ''Herbert''),
                       (''description'', Text ''...'')]\<rparr>
         # (if response_ok r_save then [booksRequest] else [])"
  by (simp add: staleEdit_def startCreate_def onOpenChange_def handleEdit_def mount_def
      dialogTitle_def handleSubmit_def submitRequest_def formDataToSend_def API_URL_def dune_def)

section \<open>The error message\<close>

lemma error_settle:
  "error s \<in> staticErrors \<Longrightarrow> error (snd (snd (settle t r s))) \<in> staticErrors"
proof (cases "(t, r, s)" rule: settle.cases)
  case (3 r' s')
  assume "error s \<in> staticErrors"
  with 3 show ?thesis by (simp add: submitDone_def resetForm_def staticErrors_def)
qed (auto simp: submitFailed_def deleteFailed_def error_fetchBooks, auto simp: staticErrors_def)

lemma error_step:
  "error (screen c) \<in> staticErrors \<Longrightarrow> error (screen (step e c)) \<in> staticErrors"
proof (cases e)
  case (Settle i r)
  assume a: "error (screen c) \<in> staticErrors"
  show ?thesis
  proof (cases "i < length (pending c)")
    case True
    with a Settle error_settle [of "screen c" "pending c ! i" r] show ?thesis
      by (simp add: screen_resume)
  next
    case False
    with a Settle show ?thesis by (simp add: screen_resume)
  qed
next
  case (InputChange f v)
  assume "error (screen c) \<in> staticErrors"
  with InputChange show ?thesis by (cases f) simp_all
next
  case (FileChange files)
  assume "error (screen c) \<in> staticErrors"
  with FileChange show ?thesis
    by (cases "(files, screen c)" rule: handleFileChange.cases) simp_all
qed (auto simp: startCreate_def handleEdit_def cancelClick_def resetForm_def onOpenChange_def
      submitStart_def handleImageError_def staticErrors_def)

text \<open>
  The error message is never any other text: after every sequence of user actions and
  request outcomes from the mount of the screen it is none or one of the three static
  strings of the source.
\<close>

lemma error_never_other_text:
  "error (screen (run es mount))
     \<in> {None, Some ''Failed to load books'', Some ''Failed to save book'',
        Some ''Failed to delete book''}"
proof -
  have keep: "error (screen c) \<in> staticErrors \<Longrightarrow> error (screen (run es c)) \<in> staticErrors"
    for c
    by (induction es arbitrary: c) (simp_all add: error_step)
  have "error (screen mount) \<in> staticErrors"
    by (simp add: mount_def initialState_def staticErrors_def)
  then have "error (screen (run es mount)) \<in> staticErrors"
    by (rule keep)
  then show ?thesis
    by (simp only: staticErrors_def)
qed

text \<open>
  The failures that do surface, for every state: a failed list load shows "Failed to load
  books", a failed save shows "Failed to save book", a failed delete shows "Failed to
  delete book", and a failed reload after a successful delete shows "Failed to load
  books".
\<close>

lemma failures_that_surface:
  "(loaded r = None \<longrightarrow> error (fetchBooks r s) = Some ''Failed to load books'')
   \<and> (\<not> response_ok r \<longrightarrow>
        error (snd (handleSubmit r r_books s)) = Some ''Failed to save book''
        \<and> error (snd (handleDelete bookId True r r_books s)) = Some ''Failed to delete book'')
   \<and> (response_ok r_delete \<and> loaded r = None \<longrightarrow>
        error (snd (handleDelete bookId True r_delete r s)) = Some ''Failed to load books'')"
  by (simp add: fetchBooks_loaded handleSubmit_def submitFailed_def handleDelete_def
      deleteFailed_def)

text \<open>
  Claim C2 says that every network failure surfaces as one of the static strings. The
  source does not do that for the reload that follows a successful save: \<open>fetchBooks\<close>
  sets "Failed to load books" (line 63), and \<open>handleSubmit\<close> goes on to close the dialog
  and to call \<open>resetForm\<close> (lines 126-127), whose \<^verbatim>\<open>setError(null)\<close> erases the message.
  For every state and every way the reload can fail, the error is none afterwards, the
  dialog is closed and the book list is the one from before the save. The same failed
  reload after a successful delete does show "Failed to load books". The run below is the
  screen with the book of the concrete scenario loaded, "Edit" on it, the form submitted,
  the \<^verbatim>\<open>PUT\<close> answered with success and the list request rejected.
\<close>

theorem submit_swallows_reload_failure:
  "error (snd (handleSubmit (Resolved True j) Rejected s)) = None
   \<and> error (snd (handleSubmit (Resolved True j) (Resolved False j') s)) = None
   \<and> error (snd (handleSubmit (Resolved True j) (Resolved True None) s)) = None
   \<and> books (snd (handleSubmit (Resolved True j) Rejected s)) = books s
   \<and> \<not> isModalOpen (snd (handleSubmit (Resolved True j) Rejected s))
   \<and> error (snd (handleDelete bookId True (Resolved True j) Rejected s))
       = Some ''Failed to load books''
   \<and> run [Settle 0 (Resolved True (Some [dune])), ClickEdit dune, SubmitForm,
           Settle 0 (Resolved True None), Settle 0 Rejected] mount
       = \<lparr>screen = initialState\<lparr>books := [dune]\<rparr>, pending = [],
          sent = [booksRequest,
                  \<lparr>url = ''http://localhost:3001/api/books/1'', http_method = PUT,
                   body = Some [(''title'', Text ''Dune''), (''author'', Text ''Herbert''),
                                (''description'', Text ''...'')]\<rparr>,
                  booksRequest]\<rparr>
   \<and> error (screen (run [Settle 0 (Resolved True (Some [dune])), ClickDelete ''1'' True,
                          Settle 0 (Resolved True None), Settle 0 Rejected] mount))
       = Some ''Failed to load books''"
proof -
  have submit: "error (snd (handleSubmit (Resolved True j) r s)) = None
      \<and> books (snd (handleSubmit (Resolved True j) Rejected s)) = books s
      \<and> \<not> isModalOpen (snd (handleSubmit (Resolved True j) Rejected s))" for r
    by (simp add: handleSubmit_def submitDone_def resetForm_def submitStart_def)
  have delete: "error (snd (handleDelete bookId True (Resolved True j) Rejected s))
      = Some ''Failed to load books''"
    by (simp add: handleDelete_def)
  have run_submit: "run [Settle 0 (Resolved True (Some [dune])), ClickEdit dune, SubmitForm,
           Settle 0 (Resolved True None), Settle 0 Rejected] mount
       = \<lparr>screen = initialState\<lparr>books := [dune]\<rparr>, pending = [],
          sent = [booksRequest,
                  \<lparr>url = ''http://localhost:3001/api/books/1'', http_method = PUT,
                   body = Some [(''title'', Text ''Dune''), (''author'', Text ''Herbert''),
                                (''description'', Text ''...'')]\<rparr>,
                  booksRequest]\<rparr>"
    by (simp add: mount_def resume_def initialState_def handleEdit_def submitDisabled_def
        submitStart_def submitDone_def resetForm_def submitRequest_def formDataToSend_def
        API_URL_def dune_def)
  have run_delete: "error (screen (run [Settle 0 (Resolved True (Some [dune])),
        ClickDelete ''1'' True, Settle 0 (Resolved True None), Settle 0 Rejected] mount))
       = Some ''Failed to load books''"
    by (simp add: mount_def resume_def)
  from submit [of Rejected] submit [of "Resolved False j'"] submit [of "Resolved True None"]
    delete run_submit run_delete
  show ?thesis
    by (intro conjI) simp_all
qed

section \<open>Submitting the form\<close>

text \<open>
  Claim C3: when the save request succeeds, \<open>handleSubmit\<close> sends the list request and
  takes its outcome as the book list (the returned list when that load succeeds), closes
  the dialog, and leaves the form empty, the edit target none and the error none. When
  the save request fails, it sets "Failed to save book" and leaves the dialog flag, the
  form, the edit target and the book list as they were. In both cases the in-flight flag
  is cleared at the end.
\<close>

theorem handleSubmit_outcome:
  "(response_ok r_save \<longrightarrow>
      fst (handleSubmit r_save r_books s) = [submitRequest s, booksRequest]
      \<and> books (snd (handleSubmit r_save r_books s)) = books (fetchBooks r_books s)
      \<and> (loaded r_books = Some data \<longrightarrow> books (snd (handleSubmit r_save r_books s)) = data)
      \<and> \<not> isModalOpen (snd (handleSubmit r_save r_books s))
      \<and> formData (snd (handleSubmit r_save r_books s)) = emptyForm
      \<and> editingBook (snd (handleSubmit r_save r_books s)) = None
      \<and> error (snd (handleSubmit r_save r_books s)) = None)
   \<and> (\<not> response_ok r_save \<longrightarrow>
      fst (handleSubmit r_save r_books s) = [submitRequest s]
      \<and> error (snd (handleSubmit r_save r_books s)) = Some ''Failed to save book''
      \<and> isModalOpen (snd (handleSubmit r_save r_books s)) = isModalOpen s
      \<and> formData (snd (handleSubmit r_save r_books s)) = formData s
      \<and> editingBook (snd (handleSubmit r_save r_books s)) = editingBook s
      \<and> books (snd (handleSubmit r_save r_books s)) = books s)
   \<and> \<not> isLoading (snd (handleSubmit r_save r_books s))"
proof (cases "response_ok r_save")
  case True
  then show ?thesis
    by (simp add: handleSubmit_def submitDone_def resetForm_def submitStart_def
        fetchBooks_loaded split: option.splits)
next
  case False
  then show ?thesis
    by (simp add: handleSubmit_def submitFailed_def submitStart_def)
qed

theorem handleSubmit_outcome_witness:
  "response_ok (Resolved True None) \<and> loaded (Resolved True (Some [dune])) = Some [dune]
   \<and> snd (handleSubmit (Resolved True None) (Resolved True (Some [dune]))
            (handleEdit dune initialState))
       = initialState\<lparr>books := [dune]\<rparr>
   \<and> \<not> response_ok Rejected
   \<and> snd (handleSubmit Rejected Rejected (handleEdit dune initialState))
       = (handleEdit dune initialState)\<lparr>error := Some ''Failed to save book''\<rparr>"
  using handleSubmit_outcome [of "Resolved True None" "Resolved True (Some [dune])"
      "handleEdit dune initialState" "[dune]"]
    handleSubmit_outcome [of Rejected Rejected "handleEdit dune initialState" "[]"]
  by (simp add: handleSubmit_def submitDone_def resetForm_def submitStart_def submitFailed_def
      handleEdit_def initialState_def)

text \<open>
  Claim C4: the first request of \<open>handleSubmit\<close> is a \<^verbatim>\<open>PUT\<close> to
  \<^verbatim>\<open>API_URL/books/<id>\<close> of the edit target exactly when an edit target is set, and a
  \<^verbatim>\<open>POST\<close> to \<^verbatim>\<open>API_URL/books\<close> otherwise; the only other request it may send is the
  list request. After \<open>handleEdit b\<close> the submission is a \<^verbatim>\<open>PUT\<close> to the identifier of
  \<open>b\<close>, and no request of it is a \<^verbatim>\<open>POST\<close>.
\<close>

theorem submit_update_iff_edit_target:
  "fst (handleSubmit r_save r_books s)
     = submitRequest s # (if response_ok r_save then [booksRequest] else [])
   \<and> (editingBook s = Some b \<longrightarrow>
        submitRequest s
          = \<lparr>url = API_URL @ ''/books/'' @ book_id b, http_method = PUT,
             body = Some (formDataToSend (formData s))\<rparr>)
   \<and> (editingBook s = None \<longrightarrow>
        submitRequest s
          = \<lparr>url = API_URL @ ''/books'', http_method = POST,
             body = Some (formDataToSend (formData s))\<rparr>)
   \<and> (http_method (submitRequest s) = PUT) = (editingBook s \<noteq> None)
   \<and> (http_method (submitRequest s) = POST) = (editingBook s = None)
   \<and> url (submitRequest (handleEdit b s)) = API_URL @ ''/books/'' @ book_id b
   \<and> http_method (submitRequest (handleEdit b s)) = PUT
   \<and> POST \<notin> http_method ` set (fst (handleSubmit r_save r_books (handleEdit b s)))"
  by (auto simp: handleSubmit_def submitRequest_def handleEdit_def booksRequest_def
      split: option.splits)

theorem submit_update_iff_edit_target_witness:
  "editingBook (handleEdit dune initialState) = Some dune
   \<and> fst (handleSubmit Rejected Rejected (handleEdit dune initialState))
       = [\<lparr>url = ''http://localhost:3001/api/books/1'', http_method = PUT,
           body = Some [(''title'', Text ''Dune''), (''author'', Text ''Herbert''),
                        (''description'', Text ''...'')]\<rparr>]
   \<and> editingBook initialState = None
   \<and> fst (handleSubmit Rejected Rejected initialState)
       = [\<lparr>url = ''http://localhost:3001/api/books'', http_method = POST,
           body = Some [(''title'', Text []), (''author'', Text []),
                        (''description'', Text [])]\<rparr>]"
  using submit_update_iff_edit_target [of Rejected Rejected "handleEdit dune initialState" dune]
    submit_update_iff_edit_target [of Rejected Rejected initialState dune]
  by (simp add: handleEdit_def initialState_def dune_def API_URL_def formDataToSend_def
      emptyForm_def)

section \<open>Deleting a book\<close>

text \<open>
  Claim C5: with the prompt declined, \<open>handleDelete\<close> sends no request and returns the
  state it was given. With the prompt confirmed it sends a \<^verbatim>\<open>DELETE\<close> to
  \<^verbatim>\<open>API_URL/books/X\<close>; when that succeeds it sends the list request and the state is
  that of the list load (the returned list when the load succeeds); when it fails it sends
  nothing more, sets "Failed to delete book" and leaves the book list as it was.
\<close>

theorem handleDelete_outcome:
  "handleDelete bookId False r_delete r_books s = ([], s)
   \<and> fst (handleDelete bookId True r_delete r_books s)
       = deleteRequest bookId # (if response_ok r_delete then [booksRequest] else [])
   \<and> deleteRequest bookId
       = \<lparr>url = API_URL @ ''/books/'' @ bookId, http_method = DELETE, body = None\<rparr>
   \<and> (response_ok r_delete \<longrightarrow>
        snd (handleDelete bookId True r_delete r_books s) = fetchBooks r_books s
        \<and> (loaded r_books = Some data \<longrightarrow>
             books (snd (handleDelete bookId True r_delete r_books s)) = data))
   \<and> (\<not> response_ok r_delete \<longrightarrow>
        error (snd (handleDelete bookId True r_delete r_books s)) = Some ''Failed to delete book''
        \<and> books (snd (handleDelete bookId True r_delete r_books s)) = books s)"
  by (simp add: handleDelete_def deleteRequest_def deleteFailed_def fetchBooks_loaded)

theorem handleDelete_outcome_witness:
  "response_ok (Resolved True None) \<and> loaded (Resolved True (Some [])) = Some []
   \<and> handleDelete ''1'' True (Resolved True None) (Resolved True (Some []))
        (initialState\<lparr>books := [dune]\<rparr>)
       = ([\<lparr>url = ''http://localhost:3001/api/books/1'', http_method = DELETE, body = None\<rparr>,
           \<lparr>url = ''http://localhost:3001/api/books'', http_method = GET, body = None\<rparr>],
          initialState)
   \<and> \<not> response_ok (Resolved False None)
   \<and> handleDelete ''1'' True (Resolved False None) Rejected (initialState\<lparr>books := [dune]\<rparr>)
       = ([\<lparr>url = ''http://localhost:3001/api/books/1'', http_method = DELETE, body = None\<rparr>],
          initialState\<lparr>books := [dune], error := Some ''Failed to delete book''\<rparr>)"
  using handleDelete_outcome [of "''1''" "Resolved True None" "Resolved True (Some [])"
      "initialState\<lparr>books := [dune]\<rparr>" "[]"]
    handleDelete_outcome [of "''1''" "Resolved False None" Rejected
      "initialState\<lparr>books := [dune]\<rparr>" "[]"]
  by (simp add: handleDelete_def deleteRequest_def booksRequest_def deleteFailed_def
      API_URL_def initialState_def)

section \<open>Loading the list\<close>

text \<open>
  Claim C6: when the list request succeeds, \<open>fetchBooks\<close> replaces the book list by the
  returned list and changes nothing else, and the cards rendered are those of the returned
  books in the returned order. When it fails (the request is rejected, the response is not
  \<^verbatim>\<open>ok\<close>, or its JSON does not parse), \<open>fetchBooks\<close> sets "Failed to load books" and the
  book list is as before. The load at mount is this function on the initial state.
\<close>

theorem fetchBooks_outcome:
  "(loaded r = Some data \<longrightarrow>
      fetchBooks r s = s\<lparr>books := data\<rparr>
      \<and> books (fetchBooks r s) = data
      \<and> renderCards (fetchBooks r s) = map (renderCard s) data
      \<and> map card_key (renderCards (fetchBooks r s)) = map book_id data)
   \<and> (loaded r = None \<longrightarrow>
      fetchBooks r s = s\<lparr>error := Some ''Failed to load books''\<rparr>
      \<and> error (fetchBooks r s) = Some ''Failed to load books''
      \<and> books (fetchBooks r s) = books s)
   \<and> loaded Rejected = None
   \<and> loaded (Resolved False j) = None
   \<and> loaded (Resolved True None) = None
   \<and> loaded (Resolved True (Some data)) = Some data
   \<and> run [Settle 0 r] mount
       = \<lparr>screen = fetchBooks r initialState, pending = [], sent = [booksRequest]\<rparr>"
proof -
  have same: "renderCard (s\<lparr>books := data\<rparr>) = renderCard s"
    by (rule ext) (simp add: renderCard_def renderCover_def)
  have "run [Settle 0 r] mount
          = \<lparr>screen = fetchBooks r initialState, pending = [], sent = [booksRequest]\<rparr>"
    by (simp add: mount_def resume_def)
  then show ?thesis
    by (simp add: fetchBooks_loaded renderCards_def same renderCard_def comp_def)
qed

theorem fetchBooks_outcome_witness:
  "loaded (Resolved True (Some [dune])) = Some [dune]
   \<and> books (fetchBooks (Resolved True (Some [dune])) initialState) = [dune]
   \<and> map card_title (renderCards (fetchBooks (Resolved True (Some [dune])) initialState))
       = [''Dune'']
   \<and> loaded (Resolved False (Some [])) = None
   \<and> fetchBooks (Resolved False (Some [])) (initialState\<lparr>books := [dune]\<rparr>)
       = initialState\<lparr>books := [dune], error := Some ''Failed to load books''\<rparr>"
  using fetchBooks_outcome [of "Resolved True (Some [dune])" "[dune]" initialState]
    fetchBooks_outcome [of "Resolved False (Some [])" "[]" "initialState\<lparr>books := [dune]\<rparr>"]
  by (simp add: renderCards_def renderCard_def dune_def initialState_def)

section \<open>Covers\<close>

lemma failedImages_settle: "failedImages (snd (snd (settle t r s))) = failedImages s"
  by (cases "(t, r, s)" rule: settle.cases)
    (simp_all add: submitFailed_def deleteFailed_def submitDone_def resetForm_def
      failedImages_fetchBooks)

lemma failedImages_step: "failedImages (screen c) \<subseteq> failedImages (screen (step e c))"
proof (cases e)
  case (Settle i r)
  then show ?thesis by (simp add: screen_resume failedImages_settle)
next
  case (InputChange f v)
  then show ?thesis by (cases f) simp_all
next
  case (FileChange files)
  then show ?thesis
    by (cases "(files, screen c)" rule: handleFileChange.cases) simp_all
qed (auto simp: startCreate_def handleEdit_def cancelClick_def resetForm_def onOpenChange_def
      submitStart_def handleImageError_def)

lemma failedImages_run: "failedImages (screen c) \<subseteq> failedImages (screen (run es c))"
proof (induction es arbitrary: c)
  case Nil
  show ?case by simp
next
  case (Cons e es)
  have "failedImages (screen c) \<subseteq> failedImages (screen (step e c))"
    by (rule failedImages_step)
  also have "\<dots> \<subseteq> failedImages (screen (run es (step e c)))"
    by (rule Cons.IH)
  finally show ?case by simp
qed

text \<open>
  Claim C7: no sequence of user actions and request outcomes, from any configuration,
  removes an identifier from the set of failed images; an identifier whose image reported
  an error is in the set from then on; and a book whose identifier is in the set is
  rendered with the fallback view of its title, never with the image, after any such
  sequence, as is every card of the grid with that identifier.
\<close>

theorem failed_images_append_only:
  "failedImages (screen c) \<subseteq> failedImages (screen (run es c))
   \<and> bookId \<in> failedImages (screen (run es (step (ImageError bookId) c)))
   \<and> (book_id b \<in> failedImages (screen c) \<longrightarrow>
        renderCover (screen (run es c)) b = FallbackCover (book_title b))
   \<and> (\<forall>k \<in> set (renderCards (screen (run es c))).
        card_key k \<in> failedImages (screen c) \<longrightarrow> card_cover k = FallbackCover (card_title k))"
proof -
  have mono: "failedImages (screen c') \<subseteq> failedImages (screen (run es c'))" for c'
    by (rule failedImages_run)
  have "bookId \<in> failedImages (screen (step (ImageError bookId) c))"
    by (simp add: handleImageError_def)
  with mono [of "step (ImageError bookId) c"]
  have marked: "bookId \<in> failedImages (screen (run es (step (ImageError bookId) c)))"
    by blast
  have cover: "renderCover (screen (run es c)) b' = FallbackCover (book_title b')"
    if "book_id b' \<in> failedImages (screen c)" for b'
    using that mono [of c] by (auto simp: renderCover_def)
  have cards: "card_cover k = FallbackCover (card_title k)"
    if "k \<in> set (renderCards (screen (run es c)))" "card_key k \<in> failedImages (screen c)" for k
  proof -
    from that(1) obtain b' where "k = renderCard (screen (run es c)) b'"
      by (auto simp: renderCards_def)
    with that(2) cover [of b'] show ?thesis
      by (simp add: renderCard_def)
  qed
  from mono [of c] marked cover cards show ?thesis
    by blast
qed

theorem failed_images_append_only_witness:
  "book_id dune \<in> failedImages (screen (step (ImageError ''1'') mount))
   \<and> renderCards (screen (run [Settle 0 (Resolved True (Some [dune])), ClickEdit dune, ClickCancel]
                              (step (ImageError ''1'') mount)))
       = [\<lparr>card_key = ''1'', card_cover = FallbackCover ''Dune'', card_title = ''Dune'',
           card_byline = ''by Herbert'', card_text = ''...''\<rparr>]"
  using failed_images_append_only
    [of "step (ImageError ''1'') mount"
        "[Settle 0 (Resolved True (Some [dune])), ClickEdit dune, ClickCancel]" "''1''" dune]
  by (simp add: mount_def resume_def handleImageError_def initialState_def dune_def
      renderCards_def renderCard_def renderCover_def handleEdit_def cancelClick_def resetForm_def)

text \<open>
  Claim C9, as the specification states it, fails when "the fixed base origin" is read as
  an origin (scheme, host and port): the cover of the book of the concrete scenario is
  fetched from \<^verbatim>\<open>http://localhost:3001/api/covers/1.jpg\<close>, which is not the origin followed
  by the cover path.
\<close>

theorem cover_url_has_api_prefix:
  "renderCover initialState dune = Img ''http://localhost:3001/api/covers/1.jpg'' ''Dune''
   \<and> renderCover initialState dune \<noteq> Img (base_origin @ book_cover dune) ''Dune''"
  by (simp add: renderCover_def initialState_def dune_def API_URL_def base_origin_def)

text \<open>
  Claim C9, amended: for every book whose image is rendered, the URL of the image is
  \<open>API_URL\<close>, the origin followed by the base path \<^verbatim>\<open>/api\<close>, followed by the cover
  path of the book.
\<close>

theorem cover_url_is_api_url_with_cover:
  "(book_id b \<notin> failedImages s \<longrightarrow>
      renderCover s b = Img (API_URL @ book_cover b) (book_title b))
   \<and> API_URL @ book_cover b = base_origin @ ''/api'' @ book_cover b"
  by (simp add: renderCover_def API_URL_def base_origin_def)

theorem cover_url_is_api_url_with_cover_witness:
  "book_id dune \<notin> failedImages initialState
   \<and> renderCover initialState dune = Img (''http://localhost:3001/api'' @ ''/covers/1.jpg'') ''Dune''"
  using cover_url_is_api_url_with_cover [of dune initialState]
  by (simp add: initialState_def dune_def API_URL_def)

section \<open>One submission at a time\<close>

lemma filter_splice:
  assumes "i < length xs"
  shows "length (filter P (take i xs @ ts @ drop (Suc i) xs)) + (if P (xs ! i) then 1 else 0)
         = length (filter P xs) + length (filter P ts)"
proof -
  have "xs = take i xs @ xs ! i # drop (Suc i) xs"
    using assms by (rule id_take_nth_drop)
  then have "length (filter P xs) = length (filter P (take i xs @ xs ! i # drop (Suc i) xs))"
    by simp
  then show ?thesis by simp
qed

lemma flagMatches_resume: "flagMatches c \<Longrightarrow> flagMatches (resume i r c)"
proof (cases "i < length (pending c)")
  case False
  assume "flagMatches c"
  with False show ?thesis by (simp add: resume_def)
next
  case True
  assume inv: "flagMatches c"
  note sp = filter_splice [OF True, of submitting]
  show ?thesis
  proof (cases "pending c ! i")
    case AwaitSave
    with True inv sp [of "[AwaitBooks FromSubmit]"] sp [of "[]"] show ?thesis
      by (auto simp: resume_def flagMatches_def submitsInFlight_def submitFailed_def
          split: if_splits)
  next
    case AwaitDelete
    with True inv sp [of "[AwaitBooks FromDelete]"] sp [of "[]"] show ?thesis
      by (auto simp: resume_def flagMatches_def submitsInFlight_def deleteFailed_def
          split: if_splits)
  next
    case (AwaitBooks k)
    with True inv sp [of "[]"] show ?thesis
      by (cases k)
        (auto simp: resume_def flagMatches_def submitsInFlight_def submitDone_def resetForm_def
          isLoading_fetchBooks split: if_splits)
  qed
qed

lemma flagMatches_step: "flagMatches c \<Longrightarrow> flagMatches (step e c)"
proof (cases e)
  case (Settle i r)
  assume "flagMatches c"
  with Settle show ?thesis by (simp add: flagMatches_resume)
next
  case (InputChange f v)
  assume "flagMatches c"
  with InputChange show ?thesis
    by (cases f) (simp_all add: flagMatches_def submitsInFlight_def)
next
  case (FileChange files)
  assume "flagMatches c"
  with FileChange show ?thesis
    by (cases "(files, screen c)" rule: handleFileChange.cases)
      (simp_all add: flagMatches_def submitsInFlight_def)
qed (auto simp: flagMatches_def submitsInFlight_def startCreate_def handleEdit_def
      cancelClick_def resetForm_def onOpenChange_def submitDisabled_def submitStart_def
      handleImageError_def)

lemma flagMatches_mount: "flagMatches mount"
  by (simp add: flagMatches_def submitsInFlight_def mount_def initialState_def)

text \<open>
  Claim C8: in every configuration the screen reaches from its mount, whatever the user
  does and however the requests are answered, at most one \<open>handleSubmit\<close> is suspended
  at one of its \<^verbatim>\<open>await\<close>s, and one is exactly when the in-flight flag is set; while the
  flag is set, submitting the form changes nothing: no request is sent and no handler
  starts. The guard is the submit button, disabled while the flag is set.
\<close>

theorem one_submit_in_flight:
  "submitsInFlight (run es mount) = (if isLoading (screen (run es mount)) then 1 else 0)
   \<and> submitsInFlight (run es mount) \<le> 1
   \<and> (isLoading (screen (run es mount)) \<longrightarrow>
        step SubmitForm (run es mount) = run es mount)"
proof -
  have keep: "flagMatches c \<Longrightarrow> flagMatches (run es c)" for c
    by (induction es arbitrary: c) (simp_all add: flagMatches_step)
  have "flagMatches (run es mount)"
    using flagMatches_mount by (rule keep)
  then show ?thesis
    by (simp add: flagMatches_def submitDisabled_def)
qed

theorem one_submit_in_flight_witness:
  "isLoading (screen (run [SubmitForm] mount))
   \<and> submitsInFlight (run [SubmitForm] mount) = 1
   \<and> run [SubmitForm, SubmitForm] mount = run [SubmitForm] mount
   \<and> pending (run [SubmitForm, SubmitForm] mount) = [AwaitBooks FromMount, AwaitSave]"
  using one_submit_in_flight [of "[SubmitForm]"]
  by (simp add: mount_def initialState_def submitDisabled_def submitStart_def)

section \<open>Dismissing the dialog\<close>

lemma editingBook_settle:
  "t \<noteq> AwaitBooks FromSubmit \<Longrightarrow> editingBook (snd (snd (settle t r s))) = editingBook s"
  by (cases "(t, r, s)" rule: settle.cases)
    (simp_all add: submitFailed_def deleteFailed_def editingBook_fetchBooks)

lemma editingBook_cleared:
  assumes "editingBook (screen c) \<noteq> None" and "editingBook (screen (step e c)) = None"
  shows "e = ClickCancel
         \<or> (\<exists>i r. e = Settle i r \<and> i < length (pending c) \<and> pending c ! i = AwaitBooks FromSubmit)"
proof (cases e)
  case (Settle i r)
  with assms editingBook_settle [of "pending c ! i" r "screen c"] show ?thesis
    by (auto simp: screen_resume split: if_splits)
next
  case (InputChange f v)
  with assms show ?thesis by (cases f) simp_all
next
  case (FileChange files)
  with assms show ?thesis
    by (cases "(files, screen c)" rule: handleFileChange.cases) simp_all
qed (use assms in \<open>auto simp: startCreate_def handleEdit_def onOpenChange_def submitStart_def
      handleImageError_def split: if_splits\<close>)

text \<open>
  Claim C10: the dialog's own close mechanism, \<open>onOpenChange False\<close>, clears the
  modal-open flag and nothing else: the form, the edit target and the error are as before,
  so the edit target set by \<open>handleEdit b\<close> survives it. "Cancel" closes the dialog and
  resets the three. And an edit target that is set becomes none in one step of the screen
  only by "Cancel" or by the end of a \<open>handleSubmit\<close> whose save request succeeded (the
  handler then awaits the list request).
\<close>

theorem dismissal_keeps_form:
  "onOpenChange False s = s\<lparr>isModalOpen := False\<rparr>
   \<and> \<not> isModalOpen (onOpenChange False s)
   \<and> formData (onOpenChange False s) = formData s
   \<and> editingBook (onOpenChange False s) = editingBook s
   \<and> error (onOpenChange False s) = error s
   \<and> editingBook (onOpenChange False (handleEdit b s)) = Some b
   \<and> formData (cancelClick s) = emptyForm \<and> editingBook (cancelClick s) = None
   \<and> error (cancelClick s) = None \<and> \<not> isModalOpen (cancelClick s)
   \<and> (editingBook (screen c) \<noteq> None \<and> editingBook (screen (step e c)) = None \<longrightarrow>
        e = ClickCancel
        \<or> (\<exists>i r. e = Settle i r \<and> i < length (pending c)
                  \<and> pending c ! i = AwaitBooks FromSubmit))"
  using editingBook_cleared [of c e]
  by (simp add: onOpenChange_def handleEdit_def cancelClick_def resetForm_def)

theorem dismissal_keeps_form_witness:
  "editingBook (screen (step (ClickEdit dune) mount)) \<noteq> None
   \<and> editingBook (screen (step (OpenChange False) (step (ClickEdit dune) mount))) = Some dune
   \<and> editingBook (screen (step ClickCancel (step (ClickEdit dune) mount))) = None"
  using dismissal_keeps_form [of initialState dune "step (ClickEdit dune) mount" ClickCancel]
  by (simp add: mount_def handleEdit_def cancelClick_def resetForm_def onOpenChange_def)

end
